theory Spec2Isabelle
  imports Main
begin

section \<open>JavaScript numbers\<close>

text \<open>
  Every numeric value of the program is a JavaScript \<^verbatim>\<open>number\<close>, an IEEE 754 binary64
  value. A finite value is kept as \<open>Fin m e\<close>, standing for \<open>m * 2 ^ e\<close>, in the normal form
  where \<open>m\<close> is odd, or \<open>m = 0\<close> and \<open>e = 0\<close>; so two finite values are equal exactly when
  they are the same term. The two zeros of binary64 are not told apart: the program compares
  zeros, tests them for truthiness and adds to them, and all three treat \<open>-0\<close> as \<open>0\<close>; it
  divides by the constants 2 and 5 only.
\<close>

datatype number = NaN | NegInf | PosInf | Fin int int

function mkFin :: "int \<Rightarrow> int \<Rightarrow> number" where
  "mkFin m e = (if m = 0 then Fin 0 0
                else if even m then mkFin (drop_bit 1 m) (e + 1)
                else Fin m e)"
  by pat_completeness auto
termination
  by (relation "measure (\<lambda>(m, e). nat \<bar>m\<bar>)") (auto simp: drop_bit_eq_div)

text \<open>The number of binary digits of a positive integer (0 for the others).\<close>

function bitlen :: "int \<Rightarrow> int" where
  "bitlen n = (if n \<le> 0 then 0 else 1 + bitlen (drop_bit 1 n))"
  by pat_completeness auto
termination
  by (relation "measure nat") (auto simp: drop_bit_eq_div)

declare mkFin.simps [simp del] bitlen.simps [simp del]

text \<open>\<open>shl n k\<close> is \<open>n * 2 ^ k\<close> for \<open>k \<ge> 0\<close>, and \<open>n\<close> for a negative \<open>k\<close>.\<close>

definition shl :: "int \<Rightarrow> int \<Rightarrow> int" where
  "shl n k = push_bit (nat k) n"

text \<open>For positive \<open>n\<close> and \<open>d\<close>, the integer \<open>t\<close> with \<open>2 ^ t \<le> n / d < 2 ^ (t + 1)\<close>.\<close>

definition floorLog2Frac :: "int \<Rightarrow> int \<Rightarrow> int" where
  "floorLog2Frac n d =
     (let t = bitlen n - bitlen d
      in if shl d t \<le> shl n (- t) then t else t - 1)"

text \<open>The integer nearest to \<open>n / d\<close> (\<open>d > 0\<close>), a tie going to the even neighbour.\<close>

definition divRoundHalfEven :: "int \<Rightarrow> int \<Rightarrow> int" where
  "divRoundHalfEven n d =
     (let q = n div d; r = n mod d
      in if 2 * r < d then q
         else if d < 2 * r then q + 1
         else if even q then q else q + 1)"

text \<open>
  \<open>roundToDouble n d e\<close> is the binary64 value of the exact quantity \<open>(n / d) * 2 ^ e\<close>
  (\<open>d > 0\<close>) under the default rounding, to nearest with ties to even: 53 significant
  bits for a normal result, the fixed unit \<open>2 ^ - 1074\<close> for a subnormal one, and an
  infinity when the rounded magnitude reaches \<open>2 ^ 1024\<close>.
\<close>

definition roundToDouble :: "int \<Rightarrow> int \<Rightarrow> int \<Rightarrow> number" where
  "roundToDouble n d e =
     (if n = 0 then Fin 0 0
      else let ex = floorLog2Frac \<bar>n\<bar> d + e;
               qe = max (ex - 52) (- 1074);
               m = divRoundHalfEven (shl n (e - qe)) (shl d (qe - e))
           in if 1024 < bitlen \<bar>m\<bar> + qe then (if 0 < n then PosInf else NegInf)
              else mkFin m qe)"

text \<open>A numeric literal of the source: an integer, or a decimal fraction \<open>p / q\<close>.\<close>

definition numInt :: "int \<Rightarrow> number" where
  "numInt n = roundToDouble n 1 0"

definition numLit :: "int \<Rightarrow> int \<Rightarrow> number" where
  "numLit p q = roundToDouble p q 0"

fun num_neg :: "number \<Rightarrow> number" where
  "num_neg NaN = NaN"
| "num_neg NegInf = PosInf"
| "num_neg PosInf = NegInf"
| "num_neg (Fin m e) = Fin (- m) e"

fun num_abs :: "number \<Rightarrow> number" where
  "num_abs NaN = NaN"
| "num_abs NegInf = PosInf"
| "num_abs PosInf = PosInf"
| "num_abs (Fin m e) = Fin \<bar>m\<bar> e"

text \<open>The sign of a value other than \<open>NaN\<close>: \<open>-1\<close>, \<open>0\<close> or \<open>1\<close>.\<close>

fun signOf :: "number \<Rightarrow> int" where
  "signOf NaN = 0"
| "signOf NegInf = - 1"
| "signOf PosInf = 1"
| "signOf (Fin m e) = sgn m"

fun num_add :: "number \<Rightarrow> number \<Rightarrow> number" where
  "num_add (Fin m1 e1) (Fin m2 e2) =
     (let e = min e1 e2 in roundToDouble (shl m1 (e1 - e) + shl m2 (e2 - e)) 1 e)"
| "num_add NaN b = NaN"
| "num_add a NaN = NaN"
| "num_add PosInf NegInf = NaN"
| "num_add NegInf PosInf = NaN"
| "num_add PosInf b = PosInf"
| "num_add NegInf b = NegInf"
| "num_add a PosInf = PosInf"
| "num_add a NegInf = NegInf"

definition num_sub :: "number \<Rightarrow> number \<Rightarrow> number" where
  "num_sub a b = num_add a (num_neg b)"

fun num_mul :: "number \<Rightarrow> number \<Rightarrow> number" where
  "num_mul (Fin m1 e1) (Fin m2 e2) = roundToDouble (m1 * m2) 1 (e1 + e2)"
| "num_mul NaN b = NaN"
| "num_mul a NaN = NaN"
| "num_mul a b =
     (if signOf a * signOf b = 0 then NaN
      else if 0 < signOf a * signOf b then PosInf else NegInf)"

fun num_div :: "number \<Rightarrow> number \<Rightarrow> number" where
  "num_div (Fin m1 e1) (Fin m2 e2) =
     (if m2 = 0 then (if m1 = 0 then NaN else if 0 < m1 then PosInf else NegInf)
      else roundToDouble (m1 * sgn m2) \<bar>m2\<bar> (e1 - e2))"
| "num_div NaN b = NaN"
| "num_div a NaN = NaN"
| "num_div (Fin m e) b = Fin 0 0"
| "num_div a (Fin m e) = (if (signOf a < 0) = (0 \<le> m) then NegInf else PosInf)"
| "num_div a b = NaN"

text \<open>Comparisons: every comparison with \<open>NaN\<close> is false.\<close>

fun num_lt :: "number \<Rightarrow> number \<Rightarrow> bool" where
  "num_lt (Fin m1 e1) (Fin m2 e2) =
     (let e = min e1 e2 in shl m1 (e1 - e) < shl m2 (e2 - e))"
| "num_lt NaN b = False"
| "num_lt a NaN = False"
| "num_lt PosInf b = False"
| "num_lt a NegInf = False"
| "num_lt NegInf b = True"
| "num_lt a PosInf = True"

definition num_gt :: "number \<Rightarrow> number \<Rightarrow> bool" where
  "num_gt a b = num_lt b a"

definition num_ge :: "number \<Rightarrow> number \<Rightarrow> bool" where
  "num_ge a b = (a \<noteq> NaN \<and> b \<noteq> NaN \<and> \<not> num_lt a b)"

definition num_le :: "number \<Rightarrow> number \<Rightarrow> bool" where
  "num_le a b = num_ge b a"

definition isNaN :: "number \<Rightarrow> bool" where
  "isNaN a = (a = NaN)"

text \<open>Truthiness of a number, as \<^verbatim>\<open>||\<close> tests it: \<open>NaN\<close> and zero are falsy.\<close>

fun truthy :: "number \<Rightarrow> bool" where
  "truthy NaN = False"
| "truthy (Fin m e) = (m \<noteq> 0)"
| "truthy a = True"

text \<open>\<^verbatim>\<open>a || b\<close> on numbers.\<close>

definition orElse :: "number \<Rightarrow> number \<Rightarrow> number" where
  "orElse a b = (if truthy a then a else b)"

section \<open>The form data and the risk scorer\<close>

text \<open>\<^verbatim>\<open>interface FormDataType\<close> and \<^verbatim>\<open>initialFormData\<close>.\<close>

record FormDataType =
  readingSpeed :: number
  fixationDuration :: number
  saccadeLength :: number
  phonemeErrors :: number
  spellingErrors :: number
  comprehensionScore :: number

definition initialFormData :: FormDataType where
  "initialFormData =
     \<lparr>readingSpeed = numInt 60,
      fixationDuration = numInt 350,
      saccadeLength = numInt 30,
      phonemeErrors = numInt 10,
      spellingErrors = numInt 7,
      comprehensionScore = numInt 70\<rparr>"

text \<open>The object \<^verbatim>\<open>thresholds\<close> of \<^verbatim>\<open>analyzeData\<close>, one constant for each of its keys.\<close>

record thresholdPair =
  low :: number
  high :: number

definition thresholds_readingSpeed :: thresholdPair where
  "thresholds_readingSpeed = \<lparr>low = numInt 50, high = numInt 80\<rparr>"

definition thresholds_fixationDuration :: thresholdPair where
  "thresholds_fixationDuration = \<lparr>low = numInt 300, high = numInt 400\<rparr>"

definition thresholds_saccadeLength :: thresholdPair where
  "thresholds_saccadeLength = \<lparr>low = numInt 20, high = numInt 35\<rparr>"

definition thresholds_phonemeErrors :: thresholdPair where
  "thresholds_phonemeErrors = \<lparr>low = numInt 8, high = numInt 12\<rparr>"

definition thresholds_spellingErrors :: thresholdPair where
  "thresholds_spellingErrors = \<lparr>low = numInt 5, high = numInt 10\<rparr>"

definition thresholds_comprehensionScore :: thresholdPair where
  "thresholds_comprehensionScore = \<lparr>low = numInt 60, high = numInt 80\<rparr>"

text \<open>\<^verbatim>\<open>const weights = [0.25, 0.15, 0.15, 0.20, 0.15, 0.10]\<close>: each literal is rounded to binary64.\<close>

definition weights :: "number list" where
  "weights = [numLit 25 100, numLit 15 100, numLit 15 100,
              numLit 20 100, numLit 15 100, numLit 10 100]"

text \<open>\<^verbatim>\<open>weights[index]\<close>; beyond the array it is \<^verbatim>\<open>undefined\<close>, which is \<open>NaN\<close> in arithmetic.\<close>

definition weightAt :: "nat \<Rightarrow> number" where
  "weightAt index = (if index < length weights then weights ! index else NaN)"

text \<open>The array \<^verbatim>\<open>features\<close>.\<close>

definition features :: "FormDataType \<Rightarrow> number list" where
  "features dataToAnalyze =
     [readingSpeed dataToAnalyze, fixationDuration dataToAnalyze,
      saccadeLength dataToAnalyze, phonemeErrors dataToAnalyze,
      spellingErrors dataToAnalyze, comprehensionScore dataToAnalyze]"

text \<open>
  The \<^verbatim>\<open>switch (index)\<close> in the body of \<^verbatim>\<open>features.forEach\<close>: \<^verbatim>\<open>score\<close> starts at 0 and no
  case changes it for an index beyond 5.
\<close>

definition score :: "nat \<Rightarrow> number \<Rightarrow> nat" where
  "score index v =
     (if index = 0 then
        (if num_lt v (low thresholds_readingSpeed) then 2
         else if num_lt v (high thresholds_readingSpeed) then 1 else 0)
      else if index = 1 then
        (if num_gt v (high thresholds_fixationDuration) then 2
         else if num_gt v (low thresholds_fixationDuration) then 1 else 0)
      else if index = 2 then
        (if num_lt v (low thresholds_saccadeLength) then 2
         else if num_lt v (high thresholds_saccadeLength) then 1 else 0)
      else if index = 3 then
        (if num_gt v (high thresholds_phonemeErrors) then 2
         else if num_gt v (low thresholds_phonemeErrors) then 1 else 0)
      else if index = 4 then
        (if num_gt v (high thresholds_spellingErrors) then 2
         else if num_gt v (low thresholds_spellingErrors) then 1 else 0)
      else if index = 5 then
        (if num_lt v (low thresholds_comprehensionScore) then 2
         else if num_lt v (high thresholds_comprehensionScore) then 1 else 0)
      else 0)"

text \<open>One round of the \<^verbatim>\<open>forEach\<close>: \<^verbatim>\<open>riskScore += score * weight\<close>.\<close>

definition forEachStep :: "number \<Rightarrow> number \<times> nat \<Rightarrow> number" where
  "forEachStep riskScore vi =
     (case vi of (v, index) \<Rightarrow>
        num_add riskScore (num_mul (numInt (int (score index v))) (weightAt index)))"

text \<open>The value of \<^verbatim>\<open>riskScore\<close> when the \<^verbatim>\<open>forEach\<close> has run over the whole array.\<close>

definition weightedRisk :: "number list \<Rightarrow> number" where
  "weightedRisk fs = foldl forEachStep (numInt 0) (zip fs [0..<length fs])"

record detailsType =
  readingSpeedRisk :: string
  fixationRisk :: string
  saccadeRisk :: string
  phonemeRisk :: string
  spellingRisk :: string
  comprehensionRisk :: string

record RiskResult =
  prediction :: nat
  riskScore :: number
  confidence :: number
  details :: detailsType

definition analyzeData :: "FormDataType \<Rightarrow> RiskResult" where
  "analyzeData dataToAnalyze =
     (let fs = features dataToAnalyze;
          normalizedScore = num_mul (num_div (weightedRisk fs) (numInt 2)) (numInt 10)
      in \<lparr>prediction = (if num_ge normalizedScore (numInt 5) then 1 else 0),
          riskScore = normalizedScore,
          confidence =
            num_mul (num_sub (numInt 1)
                       (num_div (num_abs (num_sub (numInt 5) normalizedScore)) (numInt 5)))
                    (numInt 100),
          details =
            \<lparr>readingSpeedRisk =
               (if num_lt (fs ! 0) (low thresholds_readingSpeed) then ''High''
                else if num_lt (fs ! 0) (high thresholds_readingSpeed) then ''Medium''
                else ''Low''),
             fixationRisk =
               (if num_gt (fs ! 1) (high thresholds_fixationDuration) then ''High''
                else if num_gt (fs ! 1) (low thresholds_fixationDuration) then ''Medium''
                else ''Low''),
             saccadeRisk =
               (if num_lt (fs ! 2) (low thresholds_saccadeLength) then ''High''
                else if num_lt (fs ! 2) (high thresholds_saccadeLength) then ''Medium''
                else ''Low''),
             phonemeRisk =
               (if num_gt (fs ! 3) (high thresholds_phonemeErrors) then ''High''
                else if num_gt (fs ! 3) (low thresholds_phonemeErrors) then ''Medium''
                else ''Low''),
             spellingRisk =
               (if num_gt (fs ! 4) (high thresholds_spellingErrors) then ''High''
                else if num_gt (fs ! 4) (low thresholds_spellingErrors) then ''Medium''
                else ''Low''),
             comprehensionRisk =
               (if num_lt (fs ! 5) (low thresholds_comprehensionScore) then ''High''
                else if num_lt (fs ! 5) (high thresholds_comprehensionScore) then ''Medium''
                else ''Low'')\<rparr>\<rparr>)"

text \<open>
  The six values that \<^verbatim>\<open>score\<close> takes during the \<^verbatim>\<open>forEach\<close>, in the order of the array.
\<close>

definition fieldScores :: "FormDataType \<Rightarrow> nat list" where
  "fieldScores d = map (\<lambda>(v, index). score index v) (zip (features d) [0..<6])"

section \<open>Strings\<close>

text \<open>
  A string is the list of its code units; a \<^typ>\<open>char\<close> stands for a code unit below 256,
  read as the Unicode character of that number.
\<close>

text \<open>
  The white space and line terminators that \<^verbatim>\<open>String.prototype.trim\<close> removes and that
  the conversion of a string to a number skips: tab, line feed, vertical tab, form feed,
  carriage return, space and no-break space.
\<close>

definition isWhiteSpace :: "char \<Rightarrow> bool" where
  "isWhiteSpace c = ((of_char c :: nat) \<in> {9, 10, 11, 12, 13, 32, 160})"

definition trim :: "string \<Rightarrow> string" where
  "trim s = rev (dropWhile isWhiteSpace (rev (dropWhile isWhiteSpace s)))"

text \<open>
  \<^verbatim>\<open>toLowerCase\<close>: the letters A to Z, and the capital letters from 192 to 222 (215, the
  multiplication sign, is no letter), move 32 places up.
\<close>

definition toLowerChar :: "char \<Rightarrow> char" where
  "toLowerChar c =
     (let n = (of_char c :: nat)
      in if (65 \<le> n \<and> n \<le> 90) \<or> (192 \<le> n \<and> n \<le> 222 \<and> n \<noteq> 215)
         then char_of (n + 32) else c)"

definition toLowerCase :: "string \<Rightarrow> string" where
  "toLowerCase s = map toLowerChar s"

text \<open>
  \<^verbatim>\<open>s.split(c)\<close> for a separator of one character: the pieces between the separators, so
  one piece more than there are separators; the empty string gives one empty piece.
\<close>

fun split :: "char \<Rightarrow> string \<Rightarrow> string list" where
  "split c [] = [] # []"
| "split c (x # xs) =
     (if x = c then [] # split c xs
      else (case split c xs of [] \<Rightarrow> [x] # [] | piece # pieces \<Rightarrow> (x # piece) # pieces))"

text \<open>\<^verbatim>\<open>xs.indexOf(x)\<close>: the first position of \<open>x\<close>, or \<open>-1\<close>.\<close>

fun indexFrom :: "int \<Rightarrow> 'a list \<Rightarrow> 'a \<Rightarrow> int" where
  "indexFrom i [] x = - 1"
| "indexFrom i (y # ys) x = (if y = x then i else indexFrom (i + 1) ys x)"

definition indexOf :: "'a list \<Rightarrow> 'a \<Rightarrow> int" where
  "indexOf xs x = indexFrom 0 xs x"

text \<open>\<^verbatim>\<open>xs[i]\<close>: \<^verbatim>\<open>undefined\<close> (\<open>None\<close>) at \<open>-1\<close> and beyond the end.\<close>

definition elemAt :: "'a list \<Rightarrow> int \<Rightarrow> 'a option" where
  "elemAt xs i = (if 0 \<le> i \<and> i < int (length xs) then Some (xs ! nat i) else None)"

section \<open>The conversion \<^verbatim>\<open>Number(value)\<close>\<close>

text \<open>The value of a digit, of a letter \<open>a\<close> to \<open>f\<close> read as a hexadecimal digit too.\<close>

definition digitOf :: "char \<Rightarrow> nat option" where
  "digitOf c =
     (let n = (of_char c :: nat)
      in if 48 \<le> n \<and> n \<le> 57 then Some (n - 48)
         else if 97 \<le> n \<and> n \<le> 102 then Some (n - 87)
         else if 65 \<le> n \<and> n \<le> 70 then Some (n - 55)
         else None)"

definition isDigitIn :: "nat \<Rightarrow> char \<Rightarrow> bool" where
  "isDigitIn base c = (case digitOf c of None \<Rightarrow> False | Some v \<Rightarrow> v < base)"

definition digitValue :: "char \<Rightarrow> int" where
  "digitValue c = (case digitOf c of None \<Rightarrow> 0 | Some v \<Rightarrow> int v)"

text \<open>The value of a non-empty string of digits in a base; \<open>None\<close> for any other string.\<close>

definition radixValue :: "nat \<Rightarrow> string \<Rightarrow> int option" where
  "radixValue base ds =
     (if ds \<noteq> [] \<and> list_all (isDigitIn base) ds
      then Some (foldl (\<lambda>acc c. acc * int base + digitValue c) 0 ds)
      else None)"

text \<open>
  The exponent part of a decimal literal: nothing, or \<open>e\<close> or \<open>E\<close>, an optional sign and
  at least one digit.
\<close>

definition exponentPart :: "string \<Rightarrow> int option" where
  "exponentPart s =
     (case s of
        [] \<Rightarrow> Some 0
      | c # r \<Rightarrow>
          if c = CHR ''e'' \<or> c = CHR ''E'' then
            (case r of
               [] \<Rightarrow> None
             | sg # ds \<Rightarrow>
                 if sg = CHR ''+'' then radixValue 10 ds
                 else if sg = CHR ''-'' then map_option uminus (radixValue 10 ds)
                 else radixValue 10 r)
          else None)"

text \<open>
  An unsigned decimal literal: \<^verbatim>\<open>Infinity\<close>, or digits with an optional fraction and an
  optional exponent, with a digit before or after the point. Its value is the binary64
  number nearest to the decimal one.
\<close>

definition unsignedDecimal :: "string \<Rightarrow> number" where
  "unsignedDecimal s =
     (if s = ''Infinity'' then PosInf
      else let ip = takeWhile (isDigitIn 10) s;
               r1 = dropWhile (isDigitIn 10) s;
               afterPoint = (case r1 of [] \<Rightarrow> None
                             | c # r \<Rightarrow> if c = CHR ''.'' then Some r else None);
               fp = (case afterPoint of None \<Rightarrow> [] | Some r \<Rightarrow> takeWhile (isDigitIn 10) r);
               r2 = (case afterPoint of None \<Rightarrow> r1 | Some r \<Rightarrow> dropWhile (isDigitIn 10) r)
           in if ip = [] \<and> fp = [] then NaN
              else (case exponentPart r2 of
                      None \<Rightarrow> NaN
                    | Some ex \<Rightarrow>
                        (let n = foldl (\<lambda>acc c. acc * 10 + digitValue c) 0 (ip @ fp);
                             k = ex - int (length fp)
                         in roundToDouble (n * 10 ^ nat k) (10 ^ nat (- k)) 0)))"

definition signedDecimal :: "string \<Rightarrow> number" where
  "signedDecimal s =
     (case s of
        [] \<Rightarrow> NaN
      | c # r \<Rightarrow>
          if c = CHR ''+'' then unsignedDecimal r
          else if c = CHR ''-'' then num_neg (unsignedDecimal r)
          else unsignedDecimal s)"

text \<open>
  The conversion of a string: white space around it is dropped, the empty string is 0, a
  literal with the prefix \<^verbatim>\<open>0x\<close>, \<^verbatim>\<open>0o\<close> or \<^verbatim>\<open>0b\<close> is read in its base, any other one as a
  signed decimal literal, and what is no literal is \<open>NaN\<close>.
\<close>

definition prefixBase :: "char \<Rightarrow> nat option" where
  "prefixBase c =
     (if c = CHR ''x'' \<or> c = CHR ''X'' then Some 16
      else if c = CHR ''o'' \<or> c = CHR ''O'' then Some 8
      else if c = CHR ''b'' \<or> c = CHR ''B'' then Some 2
      else None)"

definition stringToNumber :: "string \<Rightarrow> number" where
  "stringToNumber s =
     (let t = trim s
      in case t of
           [] \<Rightarrow> Fin 0 0
         | [c] \<Rightarrow> signedDecimal t
         | c1 # c2 # r \<Rightarrow>
             (case (if c1 = CHR ''0'' then prefixBase c2 else None) of
                Some base \<Rightarrow> (case radixValue base r of None \<Rightarrow> NaN | Some n \<Rightarrow> numInt n)
              | None \<Rightarrow> signedDecimal t))"

text \<open>\<^verbatim>\<open>Number(v)\<close> for a string or \<^verbatim>\<open>undefined\<close>; \<^verbatim>\<open>Number(undefined)\<close> is \<open>NaN\<close>.\<close>

definition Number :: "string option \<Rightarrow> number" where
  "Number v = (case v of None \<Rightarrow> NaN | Some s \<Rightarrow> stringToNumber s)"

section \<open>The upload of a CSV file\<close>

definition expectedHeaders :: "string list" where
  "expectedHeaders =
     [''reading speed'', ''fixation duration'', ''saccade length'',
      ''phoneme errors'', ''spelling errors'', ''comprehension score'']"

text \<open>\<^verbatim>\<open>lines\<close>, \<^verbatim>\<open>header\<close> and \<^verbatim>\<open>data\<close> of \<^verbatim>\<open>handleCSVUpload\<close>, as functions of the file's text.\<close>

definition csvLines :: "string \<Rightarrow> string list" where
  "csvLines text = split (CHR 0x0A) (trim text)"

definition csvHeader :: "string \<Rightarrow> string list" where
  "csvHeader text = split (CHR '','') (toLowerCase (csvLines text ! 0))"

definition csvData :: "string \<Rightarrow> string list" where
  "csvData text = split (CHR '','') (csvLines text ! 1)"

text \<open>\<^verbatim>\<open>expectedHeaders.every(h => header.some(csvHeader => csvHeader.trim() === h))\<close>\<close>

definition isValidFormat :: "string list \<Rightarrow> bool" where
  "isValidFormat header =
     list_all (\<lambda>h. list_ex (\<lambda>csvHeader. trim csvHeader = h) header) expectedHeaders"

text \<open>\<^verbatim>\<open>Number(data[header.indexOf(label)]) || dflt\<close>\<close>

definition csvField :: "string list \<Rightarrow> string list \<Rightarrow> string \<Rightarrow> number \<Rightarrow> number" where
  "csvField header data label dflt =
     orElse (Number (elemAt data (indexOf header label))) dflt"

definition newFormData :: "string list \<Rightarrow> string list \<Rightarrow> FormDataType" where
  "newFormData header data =
     \<lparr>readingSpeed =
        csvField header data ''reading speed'' (readingSpeed initialFormData),
      fixationDuration =
        csvField header data ''fixation duration'' (fixationDuration initialFormData),
      saccadeLength =
        csvField header data ''saccade length'' (saccadeLength initialFormData),
      phonemeErrors =
        csvField header data ''phoneme errors'' (phonemeErrors initialFormData),
      spellingErrors =
        csvField header data ''spelling errors'' (spellingErrors initialFormData),
      comprehensionScore =
        csvField header data ''comprehension score'' (comprehensionScore initialFormData)\<rparr>"

text \<open>\<^verbatim>\<open>key.replace(/([A-Z])/g, ' $1').toLowerCase()\<close>\<close>

definition keyLabel :: "string \<Rightarrow> string" where
  "keyLabel key =
     toLowerCase (concat (map (\<lambda>c. if 65 \<le> (of_char c :: nat) \<and> (of_char c :: nat) \<le> 90
                                      then [CHR '' '', c] else [c]) key))"

text \<open>\<^verbatim>\<open>Object.entries(newFormData)\<close>, in the order in which the object was written.\<close>

definition entries :: "FormDataType \<Rightarrow> (string \<times> number) list" where
  "entries d =
     [(''readingSpeed'', readingSpeed d),
      (''fixationDuration'', fixationDuration d),
      (''saccadeLength'', saccadeLength d),
      (''phonemeErrors'', phonemeErrors d),
      (''spellingErrors'', spellingErrors d),
      (''comprehensionScore'', comprehensionScore d)]"

text \<open>
  The \<^verbatim>\<open>forEach\<close> under \<^verbatim>\<open>// Validate numbers\<close>: the message of the error that the first
  entry with a \<open>NaN\<close> throws, \<open>None\<close> when no entry throws.
\<close>

definition validateNumbers :: "FormDataType \<Rightarrow> string option" where
  "validateNumbers d =
     (case find (\<lambda>(key, v). isNaN v) (entries d) of
        None \<Rightarrow> None
      | Some (key, v) \<Rightarrow> Some (''Invalid number in '' @ keyLabel key))"

text \<open>
  The body of the \<^verbatim>\<open>try\<close> of \<^verbatim>\<open>handleCSVUpload\<close>, from the text of the file to the validated
  \<^verbatim>\<open>newFormData\<close>: \<open>Inl\<close> carries the message of a thrown \<^verbatim>\<open>Error\<close>.
\<close>

definition parseCSV :: "string \<Rightarrow> string + FormDataType" where
  "parseCSV text =
     (if length (csvLines text) < 2
      then Inl ''CSV file must contain a header row and at least one data row''
      else if \<not> isValidFormat (csvHeader text)
      then Inl ''Invalid CSV format. Please ensure the headers match the required format.''
      else (case validateNumbers (newFormData (csvHeader text) (csvData text)) of
              Some msg \<Rightarrow> Inl msg
            | None \<Rightarrow> Inr (newFormData (csvHeader text) (csvData text))))"

text \<open>The state that \<^verbatim>\<open>App\<close> holds with \<^verbatim>\<open>useState\<close>.\<close>

record AppState =
  formData :: FormDataType
  result :: "RiskResult option"
  activeTab :: string
  inputMethod :: string
  csvError :: "string option"

definition initialState :: AppState where
  "initialState =
     \<lparr>formData = initialFormData, result = None, activeTab = ''input'',
      inputMethod = ''manual'', csvError = None\<rparr>"

text \<open>
  \<^verbatim>\<open>handleCSVUpload\<close>: the second argument is the text of the chosen file, \<open>None\<close> when no
  file was chosen. \<^verbatim>\<open>setCsvError(null)\<close> runs first in every case; the \<^verbatim>\<open>catch\<close> stores the
  message of the error.
\<close>

definition handleCSVUpload :: "AppState \<Rightarrow> string option \<Rightarrow> AppState" where
  "handleCSVUpload st file =
     (let st1 = st\<lparr>csvError := None\<rparr>
      in case file of
           None \<Rightarrow> st1
         | Some text \<Rightarrow>
             (case parseCSV text of
                Inl msg \<Rightarrow> st1\<lparr>csvError := Some msg\<rparr>
              | Inr d \<Rightarrow>
                  st1\<lparr>formData := d, result := Some (analyzeData d),
                      activeTab := ''results''\<rparr>))"

text \<open>\<^verbatim>\<open>handleSubmit\<close>: the analysis of the record held in the state.\<close>

definition handleSubmit :: "AppState \<Rightarrow> AppState" where
  "handleSubmit st = st\<lparr>result := Some (analyzeData (formData st)), activeTab := ''results''\<rparr>"

section \<open>The specification's reading of the scorer\<close>

text \<open>
  The two scoring rules in the words of the specification. A field where a low value is
  the risk scores 2 below the low threshold, else 1 below the high threshold, else 0; a
  field where a high value is the risk scores 2 above the high threshold, else 1 above the
  low threshold, else 0.
\<close>

definition lowRiskScore :: "number \<Rightarrow> number \<Rightarrow> number \<Rightarrow> nat" where
  "lowRiskScore lo hi v = (if num_lt v lo then 2 else if num_lt v hi then 1 else 0)"

definition highRiskScore :: "number \<Rightarrow> number \<Rightarrow> number \<Rightarrow> nat" where
  "highRiskScore lo hi v = (if num_gt v hi then 2 else if num_gt v lo then 1 else 0)"

text \<open>
  The weighted sum of six scores with the weights 0.25, 0.15, 0.15, 0.20, 0.15 and 0.10 in
  the order of the fields, added from the left in binary64 arithmetic.
\<close>

definition weightedSum :: "nat list \<Rightarrow> number" where
  "weightedSum scores =
     foldl (\<lambda>acc (s, w). num_add acc (num_mul (numInt (int s)) w)) (numInt 0)
       (zip scores [numLit 25 100, numLit 15 100, numLit 15 100,
                    numLit 20 100, numLit 15 100, numLit 10 100])"

text \<open>A label and a score that say the same: Low for 0, Medium for 1, High for 2.\<close>

definition labelMatches :: "string \<Rightarrow> nat \<Rightarrow> bool" where
  "labelMatches label s =
     ((label = ''Low'') = (s = 0) \<and> (label = ''Medium'') = (s = 1) \<and> (label = ''High'') = (s = 2))"

section \<open>The risk scores that can occur\<close>

text \<open>
  Each field scores 0, 1 or 2, so the \<^verbatim>\<open>forEach\<close> can only reach the sums listed here:
  \<open>nextSums A index\<close> holds what one round at \<open>index\<close> makes of the sums in \<open>A\<close>.
\<close>

definition scoreValues :: "nat list" where
  "scoreValues = [0, 1, 2]"

definition nextSums :: "number list \<Rightarrow> nat \<Rightarrow> number list" where
  "nextSums A index =
     remdups (concat (map (\<lambda>a. map (\<lambda>s. num_add a (num_mul (numInt (int s)) (weightAt index)))
                                    scoreValues) A))"

definition reachableSums :: "number list" where
  "reachableSums = foldl nextSums [numInt 0] [0..<6]"

definition normalize :: "number \<Rightarrow> number" where
  "normalize x = num_mul (num_div x (numInt 2)) (numInt 10)"

definition reachableRisk :: "number list" where
  "reachableRisk = remdups (map normalize reachableSums)"

text \<open>The 69 values of \<open>reachableRisk\<close>, written out.\<close>

definition riskValues :: "number list" where
  "riskValues =
     [Fin 0 0, Fin 1 (- 1), Fin 1 0, Fin 6755399441055745 (- 52), Fin 3 (- 2),
      Fin 3 (- 1), Fin 6192449487634431 (- 51), Fin 7318349394477055 (- 51),
      Fin 8444249301319679 (- 51), Fin 4785074604081151 (- 50), Fin 5 (- 2),
      Fin 7 (- 2), Fin 9 (- 2), Fin 1 1, Fin 6755399441055745 (- 51),
      Fin 8444249301319681 (- 51), Fin 5348024557502465 (- 50),
      Fin 5629499534213119 (- 50), Fin 5910974510923775 (- 50),
      Fin 7036874417766399 (- 50), Fin 11 (- 2), Fin 7881299347898369 (- 51),
      Fin 5066549580791809 (- 50), Fin 5629499534213121 (- 50),
      Fin 9007199254740991 (- 50), Fin 5 (- 1), Fin 3 0, Fin 7 (- 1),
      Fin 9007199254740991 (- 51), Fin 13 (- 2), Fin 15 (- 2), Fin 17 (- 2),
      Fin 6192449487634431 (- 50), Fin 7318349394477055 (- 50), Fin 7 0,
      Fin 8444249301319679 (- 50), Fin 1 2, Fin 9 (- 1), Fin 5 0, Fin 3 1,
      Fin 23 (- 2), Fin 7599824371187711 (- 50), Fin 3659174697238529 (- 49),
      Fin 4503599627370497 (- 49), Fin 19 (- 2), Fin 21 (- 2),
      Fin 6473924464345089 (- 50), Fin 7036874417766401 (- 50),
      Fin 4362862139015169 (- 49), Fin 8162774324609025 (- 50),
      Fin 4925812092436481 (- 49), Fin 11 (- 1), Fin 6755399441055745 (- 50),
      Fin 25 (- 2), Fin 27 (- 2), Fin 8444249301319681 (- 50), Fin 13 (- 1),
      Fin 7881299347898369 (- 50), Fin 29 (- 2), Fin 31 (- 2), Fin 15 (- 1),
      Fin 1 3, Fin 17 (- 1), Fin 33 (- 2), Fin 35 (- 2), Fin 37 (- 2), Fin 9 0,
      Fin 19 (- 1), Fin 5 1]"

text \<open>The confidence as a function of the risk score.\<close>

definition confidenceOf :: "number \<Rightarrow> number" where
  "confidenceOf r =
     num_mul (num_sub (numInt 1) (num_div (num_abs (num_sub (numInt 5) r)) (numInt 5)))
             (numInt 100)"

definition confidenceProps :: "number \<Rightarrow> number \<Rightarrow> bool" where
  "confidenceProps r c =
     (num_le (numInt 0) c \<and> num_le c (numInt 100)
      \<and> ((c = numInt 100) = (r = numInt 5))
      \<and> ((r = numInt 0 \<or> r = numInt 10) \<longrightarrow> c = numInt 0))"

section \<open>Sample inputs\<close>

text \<open>The record of extreme values: every field at its riskiest.\<close>

definition extremeFormData :: FormDataType where
  "extremeFormData =
     \<lparr>readingSpeed = numInt 0,
      fixationDuration = numInt 500,
      saccadeLength = numInt 0,
      phonemeErrors = numInt 20,
      spellingErrors = numInt 20,
      comprehensionScore = numInt 0\<rparr>"

text \<open>A record with the scores 0, 2, 2, 0, 2 and 1.\<close>

definition mixedFormData :: FormDataType where
  "mixedFormData =
     \<lparr>readingSpeed = numInt 100,
      fixationDuration = numInt 500,
      saccadeLength = numInt 10,
      phonemeErrors = numInt 5,
      spellingErrors = numInt 15,
      comprehensionScore = numInt 70\<rparr>"

text \<open>The header row of the format that the page asks for, and uploads built on it.\<close>

definition headerRow :: string where
  "headerRow =
     ''reading speed,fixation duration,saccade length,phoneme errors,spelling errors,comprehension score''"

definition upload_zero :: string where
  "upload_zero = headerRow @ [CHR 0x0A] @ ''60,350,30,0,7,70''"

definition upload_abc :: string where
  "upload_abc = headerRow @ [CHR 0x0A] @ ''abc,350,30,10,7,70''"

definition upload_oneLine :: string where
  "upload_oneLine = headerRow"

definition upload_missing :: string where
  "upload_missing =
     ''reading speed,fixation duration,phoneme errors,spelling errors,comprehension score''
       @ [CHR 0x0A] @ ''60,350,10,7,70''"


definition upload_leadingSpace :: string where
  "upload_leadingSpace = '' '' @ headerRow @ [CHR 0x0A] @ ''45,350,30,10,7,70''"

text \<open>A state that already holds a result: the initial one after \<^verbatim>\<open>handleSubmit\<close>.\<close>

definition analysedState :: AppState where
  "analysedState = handleSubmit initialState"

section \<open>Values of the number model\<close>

text \<open>A finite value is kept in its normal form, and rounding never gives \<open>NaN\<close>.\<close>

lemma mkFin_normal_form:
  "\<exists>m' e'. mkFin m e = Fin m' e' \<and> (odd m' \<or> (m' = 0 \<and> e' = 0))"
proof (induction m e rule: mkFin.induct)
  case (1 m e)
  show ?case
  proof (cases "m = 0")
    case True
    then show ?thesis by (subst mkFin.simps) simp
  next
    case False
    show ?thesis
    proof (cases "even m")
      case True
      with False 1 show ?thesis by (subst mkFin.simps) simp
    next
      case odd: False
      with False show ?thesis by (subst mkFin.simps) simp
    qed
  qed
qed

lemma roundToDouble_not_NaN: "roundToDouble n d e \<noteq> NaN"
proof -
  have "mkFin m q \<noteq> NaN" for m q
    using mkFin_normal_form [of m q] by auto
  then show ?thesis
    by (simp add: roundToDouble_def Let_def)
qed

text \<open>
  The literals of the weights as binary64 values, and the sum of 0.1 and 0.2, which is
  0.30000000000000004.
\<close>

lemma weights_values:
  "weights =
     [Fin 1 (- 2), Fin 5404319552844595 (- 55), Fin 5404319552844595 (- 55),
      Fin 3602879701896397 (- 54), Fin 5404319552844595 (- 55), Fin 3602879701896397 (- 55)]"
  by code_simp

lemma binary64_sum_example:
  "num_add (numLit 1 10) (numLit 2 10) = Fin 1351079888211149 (- 52)
   \<and> numLit 3 10 = Fin 5404319552844595 (- 54)
   \<and> num_lt (numLit 3 10) (num_add (numLit 1 10) (numLit 2 10))"
  by code_simp

section \<open>The scorer: general facts\<close>

lemma upt6: "[0..<6] = [0, 1, 2, 3, 4, 5]"
  by (simp add: upt_rec)

lemma zip_features:
  "zip (features d) [0..<length (features d)] =
     [(readingSpeed d, 0), (fixationDuration d, 1), (saccadeLength d, 2),
      (phonemeErrors d, 3), (spellingErrors d, 4), (comprehensionScore d, 5)]"
  by (simp add: features_def upt_rec)

lemma weightedRisk_unfold:
  "weightedRisk (features d) =
     forEachStep (forEachStep (forEachStep (forEachStep (forEachStep (forEachStep (numInt 0)
       (readingSpeed d, 0)) (fixationDuration d, 1)) (saccadeLength d, 2))
       (phonemeErrors d, 3)) (spellingErrors d, 4)) (comprehensionScore d, 5)"
  unfolding weightedRisk_def zip_features by simp

lemma fieldScores_eq:
  "fieldScores d =
     [score 0 (readingSpeed d), score 1 (fixationDuration d), score 2 (saccadeLength d),
      score 3 (phonemeErrors d), score 4 (spellingErrors d), score 5 (comprehensionScore d)]"
  unfolding fieldScores_def features_def upt6 by simp

lemma weightedRisk_weightedSum: "weightedRisk (features d) = weightedSum (fieldScores d)"
  unfolding weightedRisk_unfold fieldScores_eq
  by (simp add: weightedSum_def forEachStep_def weightAt_def weights_def)

lemma riskScore_eq: "riskScore (analyzeData d) = normalize (weightedRisk (features d))"
  by (simp add: analyzeData_def normalize_def Let_def)

lemma confidence_eq: "confidence (analyzeData d) = confidenceOf (riskScore (analyzeData d))"
  by (simp add: analyzeData_def confidenceOf_def Let_def)

text \<open>Every run of the scorer ends in one of the listed risk scores.\<close>

lemma score_mem: "score i v \<in> set scoreValues"
  by (simp add: score_def scoreValues_def)

lemma step_mem: "a \<in> set A \<Longrightarrow> forEachStep a (v, i) \<in> set (nextSums A i)"
  using score_mem [of i v] by (auto simp: nextSums_def forEachStep_def)

lemma reachableSums_unfold:
  "reachableSums =
     nextSums (nextSums (nextSums (nextSums (nextSums (nextSums [numInt 0] 0) 1) 2) 3) 4) 5"
  unfolding reachableSums_def upt6 by simp

lemma weightedRisk_reach: "weightedRisk (features d) \<in> set reachableSums"
  unfolding weightedRisk_unfold reachableSums_unfold
  by (intro step_mem) simp

lemma reachableRisk_eq: "reachableRisk = riskValues"
  by code_simp

lemma riskScore_reach: "riskScore (analyzeData d) \<in> set riskValues"
  using weightedRisk_reach [of d]
  by (simp add: riskScore_eq reachableRisk_eq [symmetric] reachableRisk_def)

lemma riskValues_bounds:
  "\<forall>r \<in> set riskValues. num_le (numInt 0) r \<and> num_le r (numInt 10)"
  by code_simp

lemma riskValues_confidence:
  "\<forall>r \<in> set riskValues. confidenceProps r (confidenceOf r)"
  by code_simp

section \<open>The scorer: the claims\<close>

text \<open>
  Claim C1. For every record the scorer gives each of the six fields a score of 0, 1 or 2
  by the fixed table of thresholds: readingSpeed (50, 80), saccadeLength (20, 35) and
  comprehensionScore (60, 80) by the rule for fields where a low value is the risk,
  fixationDuration (300, 400), phonemeErrors (8, 12) and spellingErrors (5, 10) by the rule
  for fields where a high value is the risk.
\<close>

theorem C1_scores_follow_threshold_table:
  "fieldScores d =
     [lowRiskScore (numInt 50) (numInt 80) (readingSpeed d),
      highRiskScore (numInt 300) (numInt 400) (fixationDuration d),
      lowRiskScore (numInt 20) (numInt 35) (saccadeLength d),
      highRiskScore (numInt 8) (numInt 12) (phonemeErrors d),
      highRiskScore (numInt 5) (numInt 10) (spellingErrors d),
      lowRiskScore (numInt 60) (numInt 80) (comprehensionScore d)]
   \<and> set (fieldScores d) \<subseteq> {0, 1, 2}"
  by (simp add: fieldScores_eq score_def lowRiskScore_def highRiskScore_def
      thresholds_readingSpeed_def thresholds_fixationDuration_def
      thresholds_saccadeLength_def thresholds_phonemeErrors_def
      thresholds_spellingErrors_def thresholds_comprehensionScore_def)

theorem C1_witness:
  "fieldScores mixedFormData = [0, 2, 2, 0, 2, 1]
   \<and> lowRiskScore (numInt 50) (numInt 80) (readingSpeed mixedFormData) = 0
   \<and> highRiskScore (numInt 300) (numInt 400) (fixationDuration mixedFormData) = 2
   \<and> lowRiskScore (numInt 60) (numInt 80) (comprehensionScore mixedFormData) = 1"
proof -
  have "fieldScores mixedFormData = [0, 2, 2, 0, 2, 1]"
    by code_simp
  with C1_scores_follow_threshold_table [of mixedFormData] show ?thesis
    by simp
qed

text \<open>
  Claim C2. For every record, riskScore is (weightedSum / 2) * 10, where weightedSum is the
  sum of the six scores times the weights 0.25, 0.15, 0.15, 0.20, 0.15, 0.10 in the order
  of the fields, and riskScore lies between 0 and 10. The arithmetic is that of the
  program, binary64 with the sum taken from the left.
\<close>

theorem C2_riskScore_formula_and_range:
  "riskScore (analyzeData d) =
     num_mul (num_div (weightedSum (fieldScores d)) (numInt 2)) (numInt 10)
   \<and> num_le (numInt 0) (riskScore (analyzeData d))
   \<and> num_le (riskScore (analyzeData d)) (numInt 10)"
proof -
  have "riskScore (analyzeData d) =
          num_mul (num_div (weightedSum (fieldScores d)) (numInt 2)) (numInt 10)"
    by (simp add: riskScore_eq weightedRisk_weightedSum normalize_def)
  moreover have "num_le (numInt 0) (riskScore (analyzeData d))
      \<and> num_le (riskScore (analyzeData d)) (numInt 10)"
    using riskValues_bounds riskScore_reach [of d] by blast
  ultimately show ?thesis
    by simp
qed

theorem C2_witness:
  "riskScore (analyzeData extremeFormData) = numInt 10
   \<and> weightedSum (fieldScores extremeFormData) = numInt 2
   \<and> num_le (numInt 0) (numInt 10) \<and> num_le (numInt 10) (numInt 10)"
proof -
  have "riskScore (analyzeData extremeFormData) = numInt 10"
    and "weightedSum (fieldScores extremeFormData) = numInt 2"
    by code_simp+
  with C2_riskScore_formula_and_range [of extremeFormData] show ?thesis
    by simp
qed

text \<open>
  Claim C3. For every record the prediction is 1 exactly when riskScore is greater than or
  equal to 5, and 0 otherwise; a riskScore of exactly 5 gives the prediction 1.
\<close>

theorem C3_prediction_iff_riskScore_ge_5:
  "(prediction (analyzeData d) = 1) = num_ge (riskScore (analyzeData d)) (numInt 5)
   \<and> (prediction (analyzeData d) = 0) = (\<not> num_ge (riskScore (analyzeData d)) (numInt 5))
   \<and> num_ge (numInt 5) (numInt 5)"
proof -
  have "num_ge (numInt 5) (numInt 5)"
    by code_simp
  then show ?thesis
    by (simp add: analyzeData_def Let_def)
qed

theorem C3_witness:
  "riskScore (analyzeData initialFormData) = numInt 5
   \<and> prediction (analyzeData initialFormData) = 1
   \<and> num_ge (riskScore (analyzeData initialFormData)) (numInt 5)"
proof -
  have "riskScore (analyzeData initialFormData) = numInt 5"
    by code_simp
  with C3_prediction_iff_riskScore_ge_5 [of initialFormData] show ?thesis
    by simp
qed

text \<open>
  Claim C4. For every record, confidence is (1 - |5 - riskScore| / 5) * 100; it lies
  between 0 and 100, it is 100 exactly when riskScore is 5, and it is 0 when riskScore is
  0 or 10.
\<close>

theorem C4_confidence_formula_and_range:
  "confidence (analyzeData d) =
     num_mul (num_sub (numInt 1)
                (num_div (num_abs (num_sub (numInt 5) (riskScore (analyzeData d)))) (numInt 5)))
             (numInt 100)
   \<and> num_le (numInt 0) (confidence (analyzeData d))
   \<and> num_le (confidence (analyzeData d)) (numInt 100)
   \<and> (confidence (analyzeData d) = numInt 100) = (riskScore (analyzeData d) = numInt 5)
   \<and> ((riskScore (analyzeData d) = numInt 0 \<or> riskScore (analyzeData d) = numInt 10)
        \<longrightarrow> confidence (analyzeData d) = numInt 0)"
proof -
  have "confidenceProps (riskScore (analyzeData d)) (confidenceOf (riskScore (analyzeData d)))"
    using riskValues_confidence riskScore_reach [of d] by blast
  then show ?thesis
    unfolding confidence_eq confidenceProps_def by (simp add: confidenceOf_def)
qed

theorem C4_witness:
  "riskScore (analyzeData extremeFormData) = numInt 10
   \<and> confidence (analyzeData extremeFormData) = numInt 0
   \<and> num_le (numInt 0) (numInt 0) \<and> num_le (numInt 0) (numInt 100)"
proof -
  have r: "riskScore (analyzeData extremeFormData) = numInt 10"
    by code_simp
  have b: "num_le (numInt 0) (numInt 0) \<and> num_le (numInt 0) (numInt 100)"
    by code_simp
  from C4_confidence_formula_and_range [of extremeFormData] r
  have "confidence (analyzeData extremeFormData) = numInt 0"
    by blast
  with r b show ?thesis
    by blast
qed

text \<open>
  Claim C8. For every record and each of the six fields, the label in the details of the
  result is Low exactly when the score of the field is 0, Medium exactly when it is 1 and
  High exactly when it is 2.
\<close>

theorem C8_labels_agree_with_scores:
  "labelMatches (readingSpeedRisk (details (analyzeData d))) (fieldScores d ! 0)
   \<and> labelMatches (fixationRisk (details (analyzeData d))) (fieldScores d ! 1)
   \<and> labelMatches (saccadeRisk (details (analyzeData d))) (fieldScores d ! 2)
   \<and> labelMatches (phonemeRisk (details (analyzeData d))) (fieldScores d ! 3)
   \<and> labelMatches (spellingRisk (details (analyzeData d))) (fieldScores d ! 4)
   \<and> labelMatches (comprehensionRisk (details (analyzeData d))) (fieldScores d ! 5)"
  by (simp add: fieldScores_eq analyzeData_def Let_def features_def score_def labelMatches_def)

theorem C8_witness:
  "fieldScores mixedFormData = [0, 2, 2, 0, 2, 1]
   \<and> labelMatches (readingSpeedRisk (details (analyzeData mixedFormData))) 0
   \<and> labelMatches (fixationRisk (details (analyzeData mixedFormData))) 2
   \<and> labelMatches (comprehensionRisk (details (analyzeData mixedFormData))) 1"
proof -
  have "fieldScores mixedFormData = [0, 2, 2, 0, 2, 1]"
    by code_simp
  with C8_labels_agree_with_scores [of mixedFormData] show ?thesis
    by simp
qed

text \<open>
  Claim C9. For the default record (60, 350, 30, 10, 7, 70) each of the six scores is 1 and
  each label is Medium, the weighted sum is 1, riskScore is exactly 5, the prediction is 1
  and the confidence is 100.
\<close>

theorem C9_default_record:
  "fieldScores initialFormData = [1, 1, 1, 1, 1, 1]
   \<and> details (analyzeData initialFormData) =
       \<lparr>readingSpeedRisk = ''Medium'', fixationRisk = ''Medium'', saccadeRisk = ''Medium'',
        phonemeRisk = ''Medium'', spellingRisk = ''Medium'', comprehensionRisk = ''Medium''\<rparr>
   \<and> weightedRisk (features initialFormData) = numInt 1
   \<and> riskScore (analyzeData initialFormData) = numInt 5
   \<and> prediction (analyzeData initialFormData) = 1
   \<and> confidence (analyzeData initialFormData) = numInt 100"
  by code_simp

text \<open>
  The rounding of binary64 shows at the threshold of the prediction. The scores 0, 2, 2, 0,
  2 and 1 have the weighted sum 1 and the risk score 5 in decimal arithmetic; the program
  computes the sum 0.9999999999999999 and the risk score 4.999999999999999, so its
  prediction for this record is 0.
\<close>

lemma mixedFormData_below_threshold:
  "fieldScores mixedFormData = [0, 2, 2, 0, 2, 1]
   \<and> weightedRisk (features mixedFormData) = Fin 9007199254740991 (- 53)
   \<and> riskScore (analyzeData mixedFormData) = Fin 5629499534213119 (- 50)
   \<and> num_lt (riskScore (analyzeData mixedFormData)) (numInt 5)
   \<and> prediction (analyzeData mixedFormData) = 0"
  by code_simp

section \<open>The upload: general facts\<close>

lemma initialFormData_not_NaN:
  "readingSpeed initialFormData \<noteq> NaN" "fixationDuration initialFormData \<noteq> NaN"
  "saccadeLength initialFormData \<noteq> NaN" "phonemeErrors initialFormData \<noteq> NaN"
  "spellingErrors initialFormData \<noteq> NaN" "comprehensionScore initialFormData \<noteq> NaN"
  by code_simp+

text \<open>\<^verbatim>\<open>x || dflt\<close> is never \<open>NaN\<close> when the default is a number.\<close>

lemma truthy_not_NaN: "truthy a \<Longrightarrow> a \<noteq> NaN"
  by (cases a) simp_all

lemma csvField_not_NaN: "dflt \<noteq> NaN \<Longrightarrow> csvField header data label dflt \<noteq> NaN"
  by (simp add: csvField_def orElse_def truthy_not_NaN)

text \<open>So the \<^verbatim>\<open>forEach\<close> under \<^verbatim>\<open>// Validate numbers\<close> never throws.\<close>

lemma validateNumbers_newFormData: "validateNumbers (newFormData header data) = None"
  by (simp add: validateNumbers_def entries_def newFormData_def isNaN_def
      csvField_not_NaN initialFormData_not_NaN)

lemma parseCSV_short:
  "length (csvLines text) < 2 \<Longrightarrow>
   parseCSV text = Inl ''CSV file must contain a header row and at least one data row''"
  by (simp add: parseCSV_def)

lemma parseCSV_badHeader:
  "2 \<le> length (csvLines text) \<Longrightarrow> \<not> isValidFormat (csvHeader text) \<Longrightarrow>
   parseCSV text =
     Inl ''Invalid CSV format. Please ensure the headers match the required format.''"
  by (simp add: parseCSV_def)

lemma parseCSV_ok:
  "2 \<le> length (csvLines text) \<Longrightarrow> isValidFormat (csvHeader text) \<Longrightarrow>
   parseCSV text = Inr (newFormData (csvHeader text) (csvData text))"
  by (simp add: parseCSV_def validateNumbers_newFormData)



text \<open>A value that converts to a number other than zero is kept.\<close>

lemma csvField_kept:
  "elemAt data (indexOf header label) = Some s \<Longrightarrow> truthy (stringToNumber s) \<Longrightarrow>
   csvField header data label dflt = stringToNumber s"
  by (simp add: csvField_def Number_def orElse_def)

text \<open>A value that does not convert to a number, and one that converts to zero, are not.\<close>

lemma csvField_falsy:
  "Number (elemAt data (indexOf header label)) = NaN
     \<or> Number (elemAt data (indexOf header label)) = Fin 0 0 \<Longrightarrow>
   csvField header data label dflt = dflt"
  by (auto simp: csvField_def orElse_def)


text \<open>A text without a line feed has one line, whatever \<^verbatim>\<open>trim\<close> takes from it.\<close>

lemma split_not_Nil: "split c s \<noteq> []"
  by (induction s) (auto split: list.splits)

lemma length_split: "length (split c s) = Suc (length (filter (\<lambda>x. x = c) s))"
  by (induction s) (auto simp: split_not_Nil split: list.splits)

lemma set_trim: "x \<in> set (trim s) \<Longrightarrow> x \<in> set s"
proof -
  assume "x \<in> set (trim s)"
  then have "x \<in> set (dropWhile isWhiteSpace (rev (dropWhile isWhiteSpace s)))"
    by (simp add: trim_def)
  then have "x \<in> set (rev (dropWhile isWhiteSpace s))"
    by (rule set_dropWhileD)
  then have "x \<in> set (dropWhile isWhiteSpace s)"
    by simp
  then show "x \<in> set s"
    by (rule set_dropWhileD)
qed

lemma text_without_line_feed_has_one_line:
  "CHR 0x0A \<notin> set text \<Longrightarrow> length (csvLines text) = 1"
proof -
  assume "CHR 0x0A \<notin> set text"
  then have "CHR 0x0A \<notin> set (trim text)"
    using set_trim by blast
  then have "filter (\<lambda>x. x = CHR 0x0A) (trim text) = []"
    by (auto simp: filter_empty_conv)
  then show ?thesis
    by (simp add: csvLines_def length_split)
qed

lemma handleCSVUpload_failure:
  "parseCSV text = Inl msg \<Longrightarrow>
   handleCSVUpload st (Some text) = st\<lparr>csvError := Some msg\<rparr>"
  by (simp add: handleCSVUpload_def)

section \<open>The upload: the claims\<close>

text \<open>
  Claim C5. For every upload whose header passes validation, a value of a recognized column
  that converts to a number, the number 0 included, gives exactly that number to the field
  of the record; the default is taken only when the value is absent or converts to
  not-a-number, and taking the default raises no error.

  The program does not keep the number 0. In \<open>upload_zero\<close> the column "phoneme errors"
  holds \<open>0\<close>, which converts to the number 0; \<^verbatim>\<open>||\<close> takes 0 for a missing value and the
  record gets the default 10.
\<close>

theorem C5_zero_is_replaced_by_default:
  "isValidFormat (csvHeader upload_zero)
   \<and> elemAt (csvData upload_zero) (indexOf (csvHeader upload_zero) ''phoneme errors'') = Some ''0''
   \<and> Number (Some ''0'') = numInt 0
   \<and> parseCSV upload_zero =
       Inr \<lparr>readingSpeed = numInt 60, fixationDuration = numInt 350, saccadeLength = numInt 30,
            phonemeErrors = numInt 10, spellingErrors = numInt 7,
            comprehensionScore = numInt 70\<rparr>
   \<and> numInt 10 \<noteq> numInt 0"
  by code_simp

text \<open>
  Claim C6. For every upload in which the value of a recognized column is present but cannot
  be parsed as a number at all, validation fails with an error message that names the
  field, and no record is produced.

  The program produces a record for such an upload: in \<open>upload_abc\<close> the column
  "reading speed" holds \<open>abc\<close>, which converts to \<open>NaN\<close>, and the record gets the default
  60.
\<close>

theorem C6_counterexample:
  "elemAt (csvData upload_abc) (indexOf (csvHeader upload_abc) ''reading speed'') = Some ''abc''
   \<and> Number (Some ''abc'') = NaN
   \<and> parseCSV upload_abc =
       Inr \<lparr>readingSpeed = numInt 60, fixationDuration = numInt 350, saccadeLength = numInt 30,
            phonemeErrors = numInt 10, spellingErrors = numInt 7,
            comprehensionScore = numInt 70\<rparr>"
  by code_simp

text \<open>
  Claim C6 as amended. No upload fails with an error that names a field. An upload of at
  least two lines whose header passes validation produces a record, and in that record a
  field whose column holds a value that cannot be parsed as a number has the predefined
  default of that field: 60 for readingSpeed, 350 for fixationDuration, 30 for
  saccadeLength, 10 for phonemeErrors, 7 for spellingErrors and 70 for comprehensionScore.
\<close>

theorem C6_unparseable_value_gets_default:
  "(\<forall>key. parseCSV text \<noteq> Inl (''Invalid number in '' @ key))
   \<and> (2 \<le> length (csvLines text) \<and> isValidFormat (csvHeader text) \<longrightarrow>
        parseCSV text = Inr (newFormData (csvHeader text) (csvData text))
        \<and> (Number (elemAt (csvData text) (indexOf (csvHeader text) ''reading speed'')) = NaN
             \<longrightarrow> readingSpeed (newFormData (csvHeader text) (csvData text)) = numInt 60)
        \<and> (Number (elemAt (csvData text) (indexOf (csvHeader text) ''fixation duration'')) = NaN
             \<longrightarrow> fixationDuration (newFormData (csvHeader text) (csvData text)) = numInt 350)
        \<and> (Number (elemAt (csvData text) (indexOf (csvHeader text) ''saccade length'')) = NaN
             \<longrightarrow> saccadeLength (newFormData (csvHeader text) (csvData text)) = numInt 30)
        \<and> (Number (elemAt (csvData text) (indexOf (csvHeader text) ''phoneme errors'')) = NaN
             \<longrightarrow> phonemeErrors (newFormData (csvHeader text) (csvData text)) = numInt 10)
        \<and> (Number (elemAt (csvData text) (indexOf (csvHeader text) ''spelling errors'')) = NaN
             \<longrightarrow> spellingErrors (newFormData (csvHeader text) (csvData text)) = numInt 7)
        \<and> (Number (elemAt (csvData text) (indexOf (csvHeader text) ''comprehension score'')) = NaN
             \<longrightarrow> comprehensionScore (newFormData (csvHeader text) (csvData text)) = numInt 70))"
proof -
  have "parseCSV text \<noteq> Inl (''Invalid number in '' @ key)" for key
    by (simp add: parseCSV_def validateNumbers_newFormData)
  then show ?thesis
    by (simp add: parseCSV_ok newFormData_def csvField_falsy initialFormData_def)
qed

theorem C6_witness:
  "2 \<le> length (csvLines upload_abc) \<and> isValidFormat (csvHeader upload_abc)
   \<and> elemAt (csvData upload_abc) (indexOf (csvHeader upload_abc) ''reading speed'') = Some ''abc''
   \<and> Number (Some ''abc'') = NaN
   \<and> parseCSV upload_abc = Inr (newFormData (csvHeader upload_abc) (csvData upload_abc))
   \<and> readingSpeed (newFormData (csvHeader upload_abc) (csvData upload_abc)) = numInt 60"
proof -
  have h: "2 \<le> length (csvLines upload_abc) \<and> isValidFormat (csvHeader upload_abc)"
    by code_simp
  have v: "elemAt (csvData upload_abc) (indexOf (csvHeader upload_abc) ''reading speed'')
      = Some ''abc''"
    by code_simp
  have n: "Number (Some ''abc'') = NaN"
    by code_simp
  from conjunct2 [OF C6_unparseable_value_gets_default [of upload_abc]] h
  have r: "parseCSV upload_abc = Inr (newFormData (csvHeader upload_abc) (csvData upload_abc))
      \<and> (Number (elemAt (csvData upload_abc) (indexOf (csvHeader upload_abc) ''reading speed''))
            = NaN
           \<longrightarrow> readingSpeed (newFormData (csvHeader upload_abc) (csvData upload_abc)) = numInt 60)"
    by blast
  from conjunct2 [OF r] n
  have f: "readingSpeed (newFormData (csvHeader upload_abc) (csvData upload_abc)) = numInt 60"
    unfolding v by (rule mp)
  from h v n conjunct1 [OF r] f show ?thesis
    by (intro conjI) (simp_all only: simp_thms)
qed

text \<open>
  Claim C7. Validation fails with a format error whenever the uploaded text has fewer than
  two lines or the header lacks one of the six recognized labels, whatever the data row
  holds; and on every failure of validation no record is produced and the record and the
  result held before stay as they were.
\<close>

theorem C7_format_errors_leave_state:
  "(length (csvLines text) < 2 \<longrightarrow>
      parseCSV text = Inl ''CSV file must contain a header row and at least one data row'')
   \<and> (2 \<le> length (csvLines text) \<and> \<not> isValidFormat (csvHeader text) \<longrightarrow>
      parseCSV text =
        Inl ''Invalid CSV format. Please ensure the headers match the required format.'')
   \<and> (\<forall>msg. parseCSV text = Inl msg \<longrightarrow>
         handleCSVUpload st (Some text) = st\<lparr>csvError := Some msg\<rparr>
         \<and> formData (handleCSVUpload st (Some text)) = formData st
         \<and> result (handleCSVUpload st (Some text)) = result st)"
  by (simp add: parseCSV_short parseCSV_badHeader handleCSVUpload_failure)

theorem C7_witness:
  "length (csvLines upload_oneLine) < 2
   \<and> parseCSV upload_oneLine =
       Inl ''CSV file must contain a header row and at least one data row''
   \<and> 2 \<le> length (csvLines upload_missing) \<and> \<not> isValidFormat (csvHeader upload_missing)
   \<and> parseCSV upload_missing =
       Inl ''Invalid CSV format. Please ensure the headers match the required format.''
   \<and> formData (handleCSVUpload analysedState (Some upload_missing)) = initialFormData
   \<and> result (handleCSVUpload analysedState (Some upload_missing)) =
       Some (analyzeData initialFormData)"
proof -
  have h1: "length (csvLines upload_oneLine) < 2"
    by code_simp
  have h2: "2 \<le> length (csvLines upload_missing) \<and> \<not> isValidFormat (csvHeader upload_missing)"
    by code_simp
  note t1 = C7_format_errors_leave_state [of upload_oneLine analysedState]
  note t2 = C7_format_errors_leave_state [of upload_missing analysedState]
  from conjunct1 [OF t1] h1
  have p1: "parseCSV upload_oneLine =
      Inl ''CSV file must contain a header row and at least one data row''"
    by (rule mp)
  from conjunct1 [OF conjunct2 [OF t2]] h2
  have p2: "parseCSV upload_missing =
      Inl ''Invalid CSV format. Please ensure the headers match the required format.''"
    by (rule mp)
  from spec [OF conjunct2 [OF conjunct2 [OF t2]]] p2
  have p3: "handleCSVUpload analysedState (Some upload_missing) =
        analysedState\<lparr>csvError :=
          Some ''Invalid CSV format. Please ensure the headers match the required format.''\<rparr>
      \<and> formData (handleCSVUpload analysedState (Some upload_missing)) = formData analysedState
      \<and> result (handleCSVUpload analysedState (Some upload_missing)) = result analysedState"
    by (rule mp)
  have s: "formData analysedState = initialFormData"
    "result analysedState = Some (analyzeData initialFormData)"
    by (simp_all add: analysedState_def handleSubmit_def initialState_def)
  from conjunct2 [OF p3] have f:
    "formData (handleCSVUpload analysedState (Some upload_missing)) = initialFormData"
    "result (handleCSVUpload analysedState (Some upload_missing)) =
       Some (analyzeData initialFormData)"
    unfolding s by (rule conjunct1, rule conjunct2)
  show ?thesis
    by (simp only: h1 h2 p1 p2 f simp_thms)
qed



text \<open>
  White space before the first label of the file is no such case: \<^verbatim>\<open>text.trim()\<close> takes it
  away with the white space around the whole text, the lookup finds the label and the
  field gets the value of the data row.
\<close>

lemma leading_space_is_trimmed_with_the_text:
  "csvHeader upload_leadingSpace ! 0 = ''reading speed''
   \<and> readingSpeed (newFormData (csvHeader upload_leadingSpace) (csvData upload_leadingSpace))
       = numInt 45"
  by code_simp

end
